theory Spec2Isabelle
  imports Complex_Main "HOL-Library.Log_Nat"
begin

section \<open>The model\<close>

subsection \<open>Tiling engine: \<open>tileImagePng\<close> (extract-url/route.ts and extract/route.ts)\<close>

text \<open>
  Both routes carry the same \<open>tileImagePng\<close>. A page bitmap is seen through the
  metadata the image library reports for it (\<open>meta.width\<close>, \<open>meta.height\<close>, either
  of which may be undefined). The buffer of a tile is the result of
  \<open>sharp(png).extract({left, top, width, height})\<close>; the model keeps the crop
  request itself, which is what decides where the tile lies.
\<close>

record Metadata =
  meta_width :: "nat option"
  meta_height :: "nat option"

record Extract =
  ext_left :: nat
  ext_top :: nat
  ext_width :: nat
  ext_height :: nat

record Tile =
  buf :: Extract
  pageIndex :: nat
  tileIndexInPage :: nat

text \<open>The two mutable locals of the loops: \<open>tiles\<close> (\<open>st_tiles\<close>) and \<open>tileIndexInPage\<close> (\<open>st_index\<close>).\<close>

record TileState =
  st_tiles :: "Tile list"
  st_index :: nat

text \<open>\<open>const step = Math.max(1, tileSize - overlap)\<close>\<close>

definition stepOf :: "nat \<Rightarrow> nat \<Rightarrow> nat" where
  "stepOf tileSize overlap = max 1 (tileSize - overlap)"

text \<open>
  The inner loop \<open>for (let left = 0; left < w; left += step)\<close>. \<open>Inl ts\<close> is the early
  \<open>return tiles\<close> taken when the budget is reached, \<open>Inr st\<close> is the normal end of
  the row.
\<close>

function colLoop ::
  "nat \<Rightarrow> nat \<Rightarrow> nat \<Rightarrow> nat \<Rightarrow> nat \<Rightarrow> int \<Rightarrow> nat \<Rightarrow> nat \<Rightarrow> TileState \<Rightarrow> Tile list + TileState"
where
  "colLoop w h tileSize overlap pgIndex maxTilesTotal top_px left_px st =
     (if left_px < w then
        (let width = min tileSize (w - left_px);
             height = min tileSize (h - top_px);
             b = \<lparr>ext_left = left_px, ext_top = top_px, ext_width = width, ext_height = height\<rparr>;
             st' = \<lparr>st_tiles = st_tiles st @ [\<lparr>buf = b, pageIndex = pgIndex, tileIndexInPage = st_index st\<rparr>],
                    st_index = st_index st + 1\<rparr>
         in if maxTilesTotal \<le> int (length (st_tiles st')) then Inl (st_tiles st')
            else colLoop w h tileSize overlap pgIndex maxTilesTotal top_px
                   (left_px + stepOf tileSize overlap) st')
      else Inr st)"
  by pat_completeness auto
termination
  by (relation "measure (\<lambda>(w, h, tileSize, overlap, pgIndex, maxTilesTotal, top_px, left_px, st). w - left_px)")
     (auto simp: stepOf_def)

text \<open>The outer loop \<open>for (let top = 0; top < h; top += step)\<close>.\<close>

function rowLoop ::
  "nat \<Rightarrow> nat \<Rightarrow> nat \<Rightarrow> nat \<Rightarrow> nat \<Rightarrow> int \<Rightarrow> nat \<Rightarrow> TileState \<Rightarrow> Tile list"
where
  "rowLoop w h tileSize overlap pgIndex maxTilesTotal top_px st =
     (if top_px < h then
        (case colLoop w h tileSize overlap pgIndex maxTilesTotal top_px 0 st of
           Inl ts \<Rightarrow> ts
         | Inr st' \<Rightarrow> rowLoop w h tileSize overlap pgIndex maxTilesTotal
                        (top_px + stepOf tileSize overlap) st')
      else st_tiles st)"
  by pat_completeness auto
termination
  by (relation "measure (\<lambda>(w, h, tileSize, overlap, pgIndex, maxTilesTotal, top_px, st). h - top_px)")
     (auto simp: stepOf_def)

definition tileImagePng :: "Metadata \<Rightarrow> nat \<Rightarrow> nat \<Rightarrow> nat \<Rightarrow> int \<Rightarrow> Tile list" where
  "tileImagePng meta pgIndex tileSize overlap maxTilesTotal =
     (let w = (case meta_width meta of None \<Rightarrow> 0 | Some x \<Rightarrow> x);
          h = (case meta_height meta of None \<Rightarrow> 0 | Some x \<Rightarrow> x)
      in if w = 0 \<or> h = 0 then []
         else rowLoop w h tileSize overlap pgIndex maxTilesTotal 0 \<lparr>st_tiles = [], st_index = 0\<rparr>)"

text \<open>
  The grid the specification describes, for comparison with the loops: the number of
  window positions per row and per column, and the window at position \<open>i\<close> counted in
  row-major order.
\<close>

definition gridCols :: "nat \<Rightarrow> nat \<Rightarrow> nat \<Rightarrow> nat" where
  "gridCols w tileSize overlap = (w + stepOf tileSize overlap - 1) div stepOf tileSize overlap"

text \<open>The \<open>i\<close>-th window in row-major order, as the specification words it.\<close>

definition windowAt :: "nat \<Rightarrow> nat \<Rightarrow> nat \<Rightarrow> nat \<Rightarrow> nat \<Rightarrow> nat \<Rightarrow> Tile" where
  "windowAt w h tileSize overlap pgIndex i =
     (let s = stepOf tileSize overlap;
          l = s * (i mod gridCols w tileSize overlap);
          t = s * (i div gridCols w tileSize overlap)
      in \<lparr>buf = \<lparr>ext_left = l, ext_top = t,
                  ext_width = min tileSize (w - l), ext_height = min tileSize (h - t)\<rparr>,
          pageIndex = pgIndex, tileIndexInPage = i\<rparr>)"

definition gridRows :: "nat \<Rightarrow> nat \<Rightarrow> nat \<Rightarrow> nat" where
  "gridRows h tileSize overlap = (h + stepOf tileSize overlap - 1) div stepOf tileSize overlap"

subsection \<open>Strings and numbers of the platform\<close>

text \<open>
  A JavaScript string is a sequence of UTF-16 code units; the regular expressions and
  string methods of the source work on code units, and the item texts are Japanese.
  A string is therefore a list of code units, and an ASCII literal of the source is
  written \<open>ascii ''...''\<close>.
\<close>

type_synonym jsstring = "nat list"

definition ascii :: "string \<Rightarrow> jsstring" where
  "ascii s = map of_char s"


text \<open>The decimal digits of a natural number: \<open>String(n)\<close> and \<open>`${n}`\<close> for an integer
  \<open>n\<close> below \<open>10^21\<close>.\<close>

function natToString :: "nat \<Rightarrow> jsstring" where
  "natToString n = (if n < 10 then [48 + n] else natToString (n div 10) @ [48 + n mod 10])"
  by pat_completeness auto
termination
  by (relation "measure id") auto

declare natToString.simps [simp del]

text \<open>\<open>String.prototype.startsWith\<close>, \<open>endsWith\<close> and \<open>includes\<close> (here \<open>includes_str\<close>).\<close>

definition startsWith :: "jsstring \<Rightarrow> jsstring \<Rightarrow> bool" where
  "startsWith s p = (take (length p) s = p)"


fun includes_str :: "jsstring \<Rightarrow> jsstring \<Rightarrow> bool" where
  "includes_str [] p = (p = [])"
| "includes_str (c # s) p = (startsWith (c # s) p \<or> includes_str s p)"

text \<open>A regular expression with the flag \<open>i\<close> and ASCII letters only matches a letter in
  either case; the comparison is made on the folded code units.\<close>

definition asciiLower :: "nat \<Rightarrow> nat" where
  "asciiLower c = (if 65 \<le> c \<and> c \<le> 90 then c + 32 else c)"

subsection \<open>Numbers\<close>

text \<open>
  A JavaScript number is a finite value, \<open>NaN\<close> or an infinity. Finite values are kept
  as the rationals they denote.
\<close>

datatype number = Fin rat | NaN | PosInf | NegInf

text \<open>\<open>Number.isFinite\<close>\<close>

fun isFinite :: "number \<Rightarrow> bool" where
  "isFinite (Fin q) = True"
| "isFinite _ = False"


subsection \<open>URLs and the per-store allowlist (extract-url/route.ts)\<close>

text \<open>
  The \<open>URL\<close> class belongs to the platform. A parsed URL is a record of the
  components the source reads: \<open>protocol\<close> (with its colon), \<open>hostname\<close>, \<open>origin\<close>
  and \<open>pathname\<close>; \<open>hrefPrefix\<close> is the serialisation up to the path (scheme,
  credentials, host and port) and \<open>hrefSuffix\<close> the query and fragment, so that
  \<open>u.toString()\<close> is their concatenation around the path. The constructor
  \<open>new URL(s)\<close> is a parameter \<open>newURL\<close> of every function that calls it: \<open>None\<close>
  is the \<open>TypeError\<close> it throws.
\<close>

record URL =
  protocol :: jsstring
  hostname :: jsstring
  origin :: jsstring
  pathname :: jsstring
  hrefPrefix :: jsstring
  hrefSuffix :: jsstring

type_synonym url_parser = "jsstring \<Rightarrow> URL option"

definition toString :: "URL \<Rightarrow> jsstring" where
  "toString u = hrefPrefix u @ pathname u @ hrefSuffix u"








subsection \<open>The network (\<open>fetch\<close>) and \<open>fetchBuffer\<close>\<close>










subsection \<open>Tile-grid compositing: \<open>composeShufooTiles\<close>\<close>

text \<open>
  The image library is a pair of parameters: \<open>toPng\<close> is
  \<open>sharp(buf).png().toBuffer()\<close> and \<open>metadata\<close> is \<open>sharp(buf).metadata()\<close>; both
  may throw. The value \<open>composeShufooTiles\<close> returns is the buffer the library renders
  from the canvas description and the composite list; the model returns that request.
\<close>

record ShufooTile =
  url :: jsstring
  row :: int
  col :: int
  page :: "nat option"







subsection \<open>Downloading the assets (extract-url/route.ts, \<open>POST\<close>, step 1)\<close>


record TileGroup =
  group_key :: jsstring
  group_tiles :: "ShufooTile list"









subsection \<open>Size probes of the resolve route (resolve/route.ts, \<open>contentLength\<close>)\<close>










subsection \<open>The trace of requests\<close>



subsection \<open>Flyer items: \<open>normalizeFlyerItem\<close> and \<open>makeDedupKey\<close> (lib/flyer.ts)\<close>

text \<open>
  A raw item is a value parsed from JSON. An object is the list of its properties (one
  entry per key, as \<open>JSON.parse\<close> builds it); reading a property that is absent gives
  \<open>undefined\<close>, which is \<open>None\<close>.
\<close>

datatype json =
    JNull
  | JBool bool
  | JNum number
  | JStr jsstring
  | JArr "json list"
  | JObj "(jsstring \<times> json) list"

text \<open>The field \<open>notes\<close> of the source is \<open>itemNotes\<close> here.\<close>

record FlyerItem =
  category :: jsstring
  name :: jsstring
  priceYen :: number
  unit :: "jsstring option"
  itemNotes :: "jsstring option"

text \<open>\<open>raw.k\<close> for one of the keys the source reads (none of them is a property of an
  array).\<close>

fun getProp :: "json \<Rightarrow> string \<Rightarrow> json option" where
  "getProp (JObj props) k = map_of props (ascii k)"
| "getProp _ k = None"

text \<open>\<open>a ?? b\<close>\<close>

fun coalesce :: "json option \<Rightarrow> json option \<Rightarrow> json option" where
  "coalesce None b = b"
| "coalesce (Some JNull) b = b"
| "coalesce (Some v) b = Some v"

text \<open>White space and line terminators: what \<open>trim\<close> strips and \<open>\s\<close> matches.\<close>

definition isSpace :: "nat \<Rightarrow> bool" where
  "isSpace c = (c \<in> {9, 10, 11, 12, 13, 32, 160, 5760, 8232, 8233, 8239, 8287, 12288, 65279}
               \<or> (8192 \<le> c \<and> c \<le> 8202))"

definition trim :: "jsstring \<Rightarrow> jsstring" where
  "trim s = rev (dropWhile isSpace (rev (dropWhile isSpace s)))"

text \<open>\<open>typeof v === 'string' ? v.trim() : ''\<close>\<close>

fun trimmedString :: "json option \<Rightarrow> jsstring" where
  "trimmedString (Some (JStr s)) = trim s"
| "trimmedString _ = []"

text \<open>\<open>\d\<close>\<close>

definition isDigit :: "nat \<Rightarrow> bool" where
  "isDigit c = (48 \<le> c \<and> c \<le> 57)"

text \<open>\<open>s.match(/\d+/)\<close>: the first maximal run of digits.\<close>

definition firstDigitRun :: "jsstring \<Rightarrow> jsstring option" where
  "firstDigitRun s =
     (let rest = dropWhile (\<lambda>c. \<not> isDigit c) s
      in if rest = [] then None else Some (takeWhile isDigit rest))"

definition digitsValue :: "jsstring \<Rightarrow> nat" where
  "digitsValue ds = foldl (\<lambda>a c. 10 * a + (c - 48)) 0 ds"

text \<open>
  The double nearest to a natural number, ties to even; from \<open>2^1024 - 2^970\<close> on the
  result is \<open>Infinity\<close>, here \<open>None\<close>. \<open>floorlog 2 n\<close> is the number of bits of \<open>n\<close>.
\<close>

definition roundNat :: "nat \<Rightarrow> nat option" where
  "roundNat n =
     (if n < 2 ^ 53 then Some n
      else if 2 ^ 1024 - 2 ^ 970 \<le> n then None
      else
        (let e = floorlog 2 n - 53;
             q = n div 2 ^ e;
             r = n mod 2 ^ e;
             half = 2 ^ (e - 1);
             q' = (if half < r \<or> (r = half \<and> odd q) then q + 1 else q)
         in Some (q' * 2 ^ e)))"

definition roundToDouble :: "nat \<Rightarrow> number" where
  "roundToDouble n = (case roundNat n of None \<Rightarrow> PosInf | Some m \<Rightarrow> Fin (of_nat m))"

text \<open>\<open>Number(m[0])\<close> for a run of decimal digits.\<close>

definition NumberOfDigits :: "jsstring \<Rightarrow> number" where
  "NumberOfDigits ds = roundToDouble (digitsValue ds)"

fun toNumberPrice :: "json option \<Rightarrow> number" where
  "toNumberPrice (Some (JNum x)) = x"
| "toNumberPrice (Some (JStr s)) =
     (case firstDigitRun (filter (\<lambda>c. c \<noteq> 44) s) of
        None \<Rightarrow> NaN
      | Some ds \<Rightarrow> NumberOfDigits ds)"
| "toNumberPrice _ = NaN"

text \<open>The sentinel category, \<open>sonota\<close> (``other'') in UTF-16 code units.\<close>

definition sonota :: jsstring where
  "sonota = [12381, 12398, 20182]"

text \<open>\<open>typeof v === 'string' && v.trim() ? v.trim() : undefined\<close>\<close>

definition trimmedOrUndefined :: "json option \<Rightarrow> jsstring option" where
  "trimmedOrUndefined v = (if trimmedString v \<noteq> [] then Some (trimmedString v) else None)"

text \<open>\<open>priceYen <= 0\<close> on a number; comparisons with \<open>NaN\<close> are false.\<close>

fun leZero :: "number \<Rightarrow> bool" where
  "leZero (Fin q) = (q \<le> 0)"
| "leZero NegInf = True"
| "leZero _ = False"

definition normalizeFlyerItem :: "json \<Rightarrow> FlyerItem option" where
  "normalizeFlyerItem raw =
     (if \<not> (case raw of JObj props \<Rightarrow> True | JArr xs \<Rightarrow> True | _ \<Rightarrow> False) then None
      else
        (let nm = trimmedString (getProp raw ''name'')
         in if nm = [] then None
            else
              (let cat = (if trimmedString (getProp raw ''category'') \<noteq> []
                          then trimmedString (getProp raw ''category'') else sonota);
                   un = trimmedOrUndefined (getProp raw ''unit'');
                   nt = trimmedOrUndefined (getProp raw ''notes'');
                   price = toNumberPrice (coalesce (getProp raw ''priceYen'')
                                           (coalesce (getProp raw ''price'') (getProp raw ''price_yen'')))
               in if \<not> isFinite price \<or> leZero price then None
                  else Some \<lparr>category = cat, name = nm, priceYen = price, unit = un, itemNotes = nt\<rparr>)))"

text \<open>
  \<open>makeDedupKey\<close>. The platform's \<open>toLowerCase\<close> and its conversion of a number to a
  string are parameters. The second \<open>replace\<close> deletes the characters of the class
  \<open>[ ( ) [ ] , . : /\<close> and their full-width and CJK forms, listed here as code units.
\<close>

definition isKeyPunct :: "nat \<Rightarrow> bool" where
  "isKeyPunct c =
     (c \<in> {65288, 65289, 40, 41, 91, 93, 12304, 12305, 12300, 12301, 12302, 12303, 12539,
            44, 65292, 46, 65294, 12290, 58, 65306, 47, 65295})"

definition norm :: "(jsstring \<Rightarrow> jsstring) \<Rightarrow> jsstring \<Rightarrow> jsstring" where
  "norm toLowerCase s =
     filter (\<lambda>c. \<not> isKeyPunct c) (filter (\<lambda>c. \<not> isSpace c) (toLowerCase s))"

definition makeDedupKey :: "(jsstring \<Rightarrow> jsstring) \<Rightarrow> (number \<Rightarrow> jsstring) \<Rightarrow> FlyerItem \<Rightarrow> jsstring" where
  "makeDedupKey toLowerCase numToString it =
     norm toLowerCase (name it) @ [124] @ numToString (priceYen it) @ [124]
       @ norm toLowerCase (case unit it of None \<Rightarrow> [] | Some u \<Rightarrow> u)"

text \<open>
  A \<open>Map\<close> keeps its keys in the order of their first insertion; \<open>map.set(k, v)\<close>
  replaces the value of a key that is present and appends a new key otherwise.
\<close>

fun mapSet :: "'k \<Rightarrow> 'v \<Rightarrow> ('k \<times> 'v) list \<Rightarrow> ('k \<times> 'v) list" where
  "mapSet k v [] = [(k, v)]"
| "mapSet k v (p # ps) = (if fst p = k then (k, v) # ps else p # mapSet k v ps)"



subsection \<open>Shufoo tile URLs (extract-url/route.ts)\<close>

text \<open>\<open>path.slice(path.lastIndexOf('/') + 1)\<close> and
  \<open>path.slice(0, path.length - basename.length)\<close>.\<close>

definition basenameOf :: "jsstring \<Rightarrow> jsstring" where
  "basenameOf path = rev (takeWhile (\<lambda>c. c \<noteq> 47) (rev path))"

definition dirOf :: "jsstring \<Rightarrow> jsstring" where
  "dirOf path = take (length path - length (basenameOf path)) path"

text \<open>The alternatives \<open>(jpg|jpeg|png|webp)\<close> under the flag \<open>i\<close>.\<close>

definition isTileExt :: "jsstring \<Rightarrow> bool" where
  "isTileExt ext =
     (map asciiLower ext \<in> {ascii ''jpg'', ascii ''jpeg'', ascii ''png'', ascii ''webp''})"

text \<open>
  \<open>basename.match(/^(\d+)_(\d+)_(\d+)\.(jpg|jpeg|png|webp)$/i)\<close>: the three captured
  digit runs. Each \<open>\d+\<close> is followed by a character that is no digit, so it is the
  maximal run.
\<close>

definition matchPageSizeIndex :: "jsstring \<Rightarrow> (jsstring \<times> jsstring \<times> jsstring) option" where
  "matchPageSizeIndex b =
     (let m1 = takeWhile isDigit b;
          r1 = drop (length m1) b;
          m2 = takeWhile isDigit (drop 1 r1);
          r2 = drop (length m2) (drop 1 r1);
          m3 = takeWhile isDigit (drop 1 r2);
          r3 = drop (length m3) (drop 1 r2)
      in if m1 \<noteq> [] \<and> take 1 r1 = [95] \<and> m2 \<noteq> [] \<and> take 1 r2 = [95]
            \<and> m3 \<noteq> [] \<and> take 1 r3 = [46] \<and> isTileExt (drop 1 r3)
         then Some (m1, m2, m3) else None)"

text \<open>
  \<open>basename.match(/^(.*)_([0-9])([0-9])\.(jpg|jpeg|png|webp)$/i)\<close>: the match ends with
  the string, so the extension of \<open>n\<close> letters fixes where \<open>_\<close>, the two digits and the
  dot stand; \<open>.\<close> matches no line terminator. The greedy \<open>(.*)\<close> tries the longer
  prefix, that is the shorter extension, first.
\<close>

definition isLineTerminator :: "nat \<Rightarrow> bool" where
  "isLineTerminator c = (c \<in> {10, 13, 8232, 8233})"

definition rowColAt :: "jsstring \<Rightarrow> nat \<Rightarrow> (jsstring \<times> nat \<times> nat) option" where
  "rowColAt b n =
     (let k = length b - (n + 4);
          pre = take k b;
          mid = take 4 (drop k b);
          ext = drop (k + 4) b
      in if n + 4 \<le> length b \<and> length ext = n \<and> mid ! 0 = 95 \<and> isDigit (mid ! 1)
            \<and> isDigit (mid ! 2) \<and> mid ! 3 = 46 \<and> isTileExt ext
            \<and> list_all (\<lambda>c. \<not> isLineTerminator c) pre
         then Some (pre, mid ! 1 - 48, mid ! 2 - 48) else None)"

definition matchRowCol :: "jsstring \<Rightarrow> (jsstring \<times> nat \<times> nat) option" where
  "matchRowCol b = (case rowColAt b 3 of Some r \<Rightarrow> Some r | None \<Rightarrow> rowColAt b 4)"

text \<open>\<open>Number(m[k])\<close> for a captured digit run, as the natural number the double is;
  \<open>None\<close> is \<open>Infinity\<close>, which \<open>Number.isFinite\<close> rejects.\<close>

definition NumberOfRun :: "jsstring \<Rightarrow> nat option" where
  "NumberOfRun ds = roundNat (digitsValue ds)"

text \<open>\<open>page + 1\<close> on doubles.\<close>

definition plusOne :: "nat \<Rightarrow> nat" where
  "plusOne p = (case roundNat (p + 1) of Some m \<Rightarrow> m | None \<Rightarrow> p)"

text \<open>A template literal converts a number with the platform's \<open>ToString\<close>, the parameter
  \<open>numToString\<close>.\<close>

definition natLit :: "(number \<Rightarrow> jsstring) \<Rightarrow> nat \<Rightarrow> jsstring" where
  "natLit numToString n = numToString (Fin (of_nat n))"

definition expandShufooTileUrls ::
  "url_parser \<Rightarrow> (number \<Rightarrow> jsstring) \<Rightarrow> jsstring \<Rightarrow> jsstring list option" where
  "expandShufooTileUrls newURL numToString urlStr =
     (case newURL urlStr of
        None \<Rightarrow> None
      | Some u \<Rightarrow>
          (let path = pathname u;
               basename = basenameOf path
           in case matchPageSizeIndex basename of
                None \<Rightarrow> None
              | Some (m1, m2, m3) \<Rightarrow>
                  (case (NumberOfRun m1, NumberOfRun m2, NumberOfRun m3) of
                     (Some pg, Some sz, Some tileIndex) \<Rightarrow>
                       (let base = origin u @ dirOf path
                        in Some (concat (map (\<lambda>p. map (\<lambda>i. base @ natLit numToString p @ [95]
                                                            @ natLit numToString sz @ [95]
                                                            @ natLit numToString i @ ascii ''.jpg'')
                                                     [0, 1, 2, 3])
                                          [pg, plusOne pg])))
                   | _ \<Rightarrow> None)))"

definition parseShufooTileUrl ::
  "url_parser \<Rightarrow> (number \<Rightarrow> jsstring) \<Rightarrow> jsstring \<Rightarrow> (jsstring \<times> ShufooTile) option" where
  "parseShufooTileUrl newURL numToString urlStr =
     (case newURL urlStr of
        None \<Rightarrow> None
      | Some u \<Rightarrow>
          (let path = pathname u;
               basename = basenameOf path;
               dir = dirOf path
           in case matchPageSizeIndex basename of
                Some (m1, m2, m3) \<Rightarrow>
                  (case (NumberOfRun m1, NumberOfRun m2, NumberOfRun m3) of
                     (Some pg, Some sz, Some tileIndex) \<Rightarrow>
                       if 3 < tileIndex then None
                       else Some (origin u @ dir @ natLit numToString pg @ [95] @ natLit numToString sz,
                                  \<lparr>url = urlStr, row = int (tileIndex div 2),
                                   col = int (tileIndex mod 2), page = Some pg\<rparr>)
                   | _ \<Rightarrow> None)
              | None \<Rightarrow>
                  (case matchRowCol basename of
                     None \<Rightarrow> None
                   | Some (baseName, r, c) \<Rightarrow>
                       Some (origin u @ dir @ baseName,
                             \<lparr>url = urlStr, row = int r, col = int c, page = None\<rparr>))))"

text \<open>
  \<open>pickShufooTileGroups\<close>. The \<open>Map\<close> from keys to tile lists is a list of pairs in
  the order of first insertion. \<open>Array.prototype.sort\<close> is stable, as is \<open>sort_key\<close>;
  the first comparator orders by descending size, the second by the page of a group's
  first tile, \<open>null\<close> counting as \<open>-1\<close>.
\<close>

definition groupStep ::
  "url_parser \<Rightarrow> (number \<Rightarrow> jsstring) \<Rightarrow> (jsstring \<times> ShufooTile list) list \<Rightarrow> jsstring
     \<Rightarrow> (jsstring \<times> ShufooTile list) list" where
  "groupStep newURL numToString groups u =
     (case parseShufooTileUrl newURL numToString u of
        None \<Rightarrow> groups
      | Some (key, tile) \<Rightarrow>
          mapSet key ((case map_of groups key of None \<Rightarrow> [] | Some l \<Rightarrow> l) @ [tile]) groups)"

definition firstPage :: "TileGroup \<Rightarrow> int" where
  "firstPage g =
     (case group_tiles g of
        [] \<Rightarrow> - 1
      | t # ts \<Rightarrow> (case page t of None \<Rightarrow> - 1 | Some p \<Rightarrow> int p))"

definition pickShufooTileGroups ::
  "url_parser \<Rightarrow> (number \<Rightarrow> jsstring) \<Rightarrow> jsstring list \<Rightarrow> TileGroup list" where
  "pickShufooTileGroups newURL numToString urls =
     (let groups = foldl (groupStep newURL numToString) [] urls;
          lst = sort_key (\<lambda>g. - int (length (group_tiles g)))
                  (filter (\<lambda>g. 2 \<le> length (group_tiles g))
                     (map (\<lambda>(k, ts). \<lparr>group_key = k, group_tiles = ts\<rparr>) groups))
      in if lst = [] then [] else sort_key firstPage lst)"

text \<open>What the grouping amounts to: the tiles parsed from the list, in its order, that
  carry a given key.\<close>

definition parsedTiles ::
  "url_parser \<Rightarrow> (number \<Rightarrow> jsstring) \<Rightarrow> jsstring list \<Rightarrow> (jsstring \<times> ShufooTile) list" where
  "parsedTiles newURL numToString urls = List.map_filter (parseShufooTileUrl newURL numToString) urls"

definition tilesOfKey :: "(jsstring \<times> ShufooTile) list \<Rightarrow> jsstring \<Rightarrow> ShufooTile list" where
  "tilesOfKey ps k = map snd (filter (\<lambda>p. fst p = k) ps)"

subsection \<open>Batch extraction (\<open>POST\<close>, steps 3 and 4)\<close>
















subsection \<open>A reference platform for the examples\<close>

text \<open>
  The concrete evaluations below need a URL parser, a network and an image library.
  \<open>plainURL\<close> stands in for \<open>new URL(s)\<close> on plain absolute http(s) URLs: a scheme
  in any case, \<open>://\<close>, a host of ASCII letters, digits, dots and hyphens (no
  credentials, no port), an optional path of unreserved characters without dot
  segments, and an optional query or fragment. On these the platform's parser yields
  the components computed here (scheme and host in lower case, \<open>/\<close> for an empty
  path). Every other string is declined.
\<close>

definition isAsciiDigit :: "nat \<Rightarrow> bool" where
  "isAsciiDigit c = (48 \<le> c \<and> c \<le> 57)"

definition isAsciiLetter :: "nat \<Rightarrow> bool" where
  "isAsciiLetter c = ((65 \<le> c \<and> c \<le> 90) \<or> (97 \<le> c \<and> c \<le> 122))"

definition plainHostChar :: "nat \<Rightarrow> bool" where
  "plainHostChar c = (isAsciiLetter c \<or> isAsciiDigit c \<or> c = 45 \<or> c = 46)"

definition plainPathChar :: "nat \<Rightarrow> bool" where
  "plainPathChar c = (isAsciiLetter c \<or> isAsciiDigit c \<or> c \<in> {45, 46, 47, 61, 95, 126})"

definition plainQueryChar :: "nat \<Rightarrow> bool" where
  "plainQueryChar c = (isAsciiLetter c \<or> isAsciiDigit c \<or> c \<in> {35, 38, 45, 46, 47, 61, 63, 95, 126})"

definition plainURL :: url_parser where
  "plainURL s =
     (let scheme = map asciiLower (takeWhile (\<lambda>c. c \<noteq> 58) s);
          rest = drop (length scheme) s;
          after = drop 3 rest;
          auth = takeWhile (\<lambda>c. c \<noteq> 47 \<and> c \<noteq> 63 \<and> c \<noteq> 35) after;
          tail = drop (length auth) after;
          path = takeWhile (\<lambda>c. c \<noteq> 63 \<and> c \<noteq> 35) tail;
          suffix = drop (length path) tail;
          host = map asciiLower auth
      in if (scheme = ascii ''http'' \<or> scheme = ascii ''https'') \<and> take 3 rest = ascii ''://''
            \<and> auth \<noteq> [] \<and> list_all plainHostChar auth \<and> list_all plainPathChar path
            \<and> \<not> includes_str path (ascii ''/.'') \<and> list_all plainQueryChar suffix
         then Some \<lparr>protocol = scheme @ ascii '':'', hostname = host,
                     origin = scheme @ ascii ''://'' @ host,
                     pathname = (if path = [] then ascii ''/'' else path),
                     hrefPrefix = scheme @ ascii ''://'' @ host, hrefSuffix = suffix\<rparr>
         else None)"








text \<open>
  \<open>map asciiLower\<close> stands in for \<open>toLowerCase\<close> on strings whose only cased
  characters are ASCII letters, and \<open>priceText\<close> for the conversion of a number to a
  string on non-negative integers below \<open>10^21\<close>.
\<close>

fun priceText :: "number \<Rightarrow> jsstring" where
  "priceText (Fin q) = natToString (nat \<lfloor>q\<rfloor>)"
| "priceText _ = ascii ''NaN''"















section \<open>Properties\<close>

subsection \<open>Tiling engine\<close>

declare colLoop.simps [simp del] rowLoop.simps [simp del]

lemma stepOf_pos: "0 < stepOf a b" by (simp add: stepOf_def)

lemma ceil_div_less: "0 < s \<Longrightarrow> (s * c < w) = (c < (w + s - 1) div (s::nat))"
proof -
  assume s: "0 < s"
  have "(c < (w + s - 1) div s) = (Suc c \<le> (w + s - 1) div s)" by auto
  also have "\<dots> = (Suc c * s \<le> w + s - 1)" using s by (simp add: less_eq_div_iff_mult_less_eq)
  also have "\<dots> = (s * c < w)" using s by (cases s) (auto simp: algebra_simps)
  finally show ?thesis by simp
qed

lemma colLoop_inv:
  assumes "left_px = stepOf tileSize overlap * c" "top_px = stepOf tileSize overlap * r"
    and "length (st_tiles st) = r * gridCols w tileSize overlap + c"
    and "c \<le> gridCols w tileSize overlap"
    and "st_index st = length (st_tiles st)"
    and "st_tiles st = map (windowAt w h tileSize overlap pg) [0..<length (st_tiles st)]"
    and "int (length (st_tiles st)) < m \<or> st_tiles st = []"
  shows "case colLoop w h tileSize overlap pg m top_px left_px st of
           Inl ts \<Rightarrow> ts = map (windowAt w h tileSize overlap pg) [0..<nat (max 1 m)]
                     \<and> nat (max 1 m) \<le> (r + 1) * gridCols w tileSize overlap
         | Inr st' \<Rightarrow> length (st_tiles st') = (r + 1) * gridCols w tileSize overlap
                     \<and> st_index st' = length (st_tiles st')
                     \<and> st_tiles st' = map (windowAt w h tileSize overlap pg) [0..<length (st_tiles st')]
                     \<and> (int (length (st_tiles st')) < m \<or> st_tiles st' = [])"
  using assms
proof (induction "gridCols w tileSize overlap - c" arbitrary: c left_px st)
  case 0
  then have "c = gridCols w tileSize overlap" by simp
  then have "\<not> left_px < w" using 0 ceil_div_less[OF stepOf_pos, of tileSize overlap c w]
    by (simp add: gridCols_def)
  then show ?case using 0 \<open>c = gridCols w tileSize overlap\<close>
    by (subst colLoop.simps) simp
next
  case (Suc n)
  let ?s = "stepOf tileSize overlap"
  let ?C = "gridCols w tileSize overlap"
  have clt: "c < ?C" using Suc.hyps by simp
  then have lt: "left_px < w" using Suc.prems ceil_div_less[OF stepOf_pos, of tileSize overlap c w]
    by (simp add: gridCols_def)
  let ?i = "length (st_tiles st)"
  have imod: "?i mod ?C = c" "?i div ?C = r" using Suc.prems clt by auto
  let ?t = "\<lparr>buf = \<lparr>ext_left = left_px, ext_top = top_px, ext_width = min tileSize (w - left_px),
                      ext_height = min tileSize (h - top_px)\<rparr>, pageIndex = pg, tileIndexInPage = st_index st\<rparr>"
  have teq: "?t = windowAt w h tileSize overlap pg ?i"
    using Suc.prems imod by (simp add: windowAt_def Let_def)
  let ?st' = "\<lparr>st_tiles = st_tiles st @ [?t], st_index = st_index st + 1\<rparr>"
  have tiles': "st_tiles ?st' = map (windowAt w h tileSize overlap pg) [0..<Suc ?i]"
    using Suc.prems(6) teq by simp
  show ?case
  proof (cases "m \<le> int (Suc ?i)")
    case True
    have "nat (max 1 m) = Suc ?i" using True Suc.prems(7) by auto
    moreover have "Suc ?i \<le> (r + 1) * ?C" using Suc.prems(3) clt by simp
    ultimately show ?thesis using lt True tiles'
      by (subst colLoop.simps) (simp add: Let_def)
  next
    case False
    have step: "colLoop w h tileSize overlap pg m top_px left_px st
          = colLoop w h tileSize overlap pg m top_px (left_px + ?s) ?st'"
      using lt False by (subst colLoop.simps) (simp add: Let_def)
    have "n = ?C - Suc c" using Suc.hyps by simp
    from Suc.hyps(1)[OF this, of "left_px + ?s" ?st'] show ?thesis
      unfolding step using Suc.prems clt False tiles' by (simp add: algebra_simps)
  qed
qed


lemma rowLoop_inv:
  assumes "top_px = stepOf tileSize overlap * r"
    and "length (st_tiles st) = r * gridCols w tileSize overlap"
    and "r \<le> gridRows h tileSize overlap"
    and "st_index st = length (st_tiles st)"
    and "st_tiles st = map (windowAt w h tileSize overlap pg) [0..<length (st_tiles st)]"
    and "int (length (st_tiles st)) < m \<or> st_tiles st = []"
    and "0 < w"
  shows "rowLoop w h tileSize overlap pg m top_px st
         = map (windowAt w h tileSize overlap pg)
             [0..<min (gridRows h tileSize overlap * gridCols w tileSize overlap) (nat (max 1 m))]"
  using assms
proof (induction "gridRows h tileSize overlap - r" arbitrary: r top_px st)
  case 0
  let ?C = "gridCols w tileSize overlap"
  have r: "r = gridRows h tileSize overlap" using 0 by simp
  then have nlt: "\<not> top_px < h" using 0 ceil_div_less[OF stepOf_pos, of tileSize overlap r h]
    by (simp add: gridRows_def)
  have "length (st_tiles st) \<le> nat (max 1 m)" using 0(7) by auto
  then have "min (gridRows h tileSize overlap * ?C) (nat (max 1 m)) = length (st_tiles st)"
    using 0(3) r by simp
  then show ?case using nlt 0(6) by (subst rowLoop.simps) simp
next
  case (Suc n)
  let ?C = "gridCols w tileSize overlap"
  let ?R = "gridRows h tileSize overlap"
  let ?s = "stepOf tileSize overlap"
  have rlt: "r < ?R" using Suc.hyps by simp
  then have lt: "top_px < h" using Suc.prems ceil_div_less[OF stepOf_pos, of tileSize overlap r h]
    by (simp add: gridRows_def)
  have le: "(r + 1) * ?C \<le> ?R * ?C" using rlt by (intro mult_le_mono1) simp
  have ci: "case colLoop w h tileSize overlap pg m top_px 0 st of
           Inl ts \<Rightarrow> ts = map (windowAt w h tileSize overlap pg) [0..<nat (max 1 m)]
                     \<and> nat (max 1 m) \<le> (r + 1) * ?C
         | Inr st' \<Rightarrow> length (st_tiles st') = (r + 1) * ?C
                     \<and> st_index st' = length (st_tiles st')
                     \<and> st_tiles st' = map (windowAt w h tileSize overlap pg) [0..<length (st_tiles st')]
                     \<and> (int (length (st_tiles st')) < m \<or> st_tiles st' = [])"
    by (rule colLoop_inv[where c = 0 and r = r]) (use Suc.prems in simp_all)
  show ?case
  proof (cases "colLoop w h tileSize overlap pg m top_px 0 st")
    case (Inl ts)
    from ci[unfolded Inl sum.case]
    have ts: "ts = map (windowAt w h tileSize overlap pg) [0..<nat (max 1 m)]"
      and b: "nat (max 1 m) \<le> (r + 1) * ?C" by blast+
    from b le have "min (?R * ?C) (nat (max 1 m)) = nat (max 1 m)" by simp
    then show ?thesis using lt Inl ts by (subst rowLoop.simps) simp
  next
    case (Inr st')
    from ci[unfolded Inr sum.case]
    have st': "length (st_tiles st') = (r + 1) * ?C" "st_index st' = length (st_tiles st')"
      "st_tiles st' = map (windowAt w h tileSize overlap pg) [0..<length (st_tiles st')]"
      "int (length (st_tiles st')) < m \<or> st_tiles st' = []" by blast+
    have n: "n = ?R - (r + 1)" using Suc.hyps by simp
    have "rowLoop w h tileSize overlap pg m top_px st
          = rowLoop w h tileSize overlap pg m (top_px + ?s) st'"
      using lt Inr by (subst rowLoop.simps) simp
    also have "\<dots> = map (windowAt w h tileSize overlap pg) [0..<min (?R * ?C) (nat (max 1 m))]"
      using Suc.hyps(1)[OF n, of "top_px + ?s" st'] st' rlt Suc.prems(1) Suc.prems(7)
      by (simp add: algebra_simps)
    finally show ?thesis .
  qed
qed

lemma tileImagePng_grid:
  assumes "0 < w" "0 < h"
  shows "tileImagePng \<lparr>meta_width = Some w, meta_height = Some h\<rparr> pg tileSize overlap m
         = map (windowAt w h tileSize overlap pg)
             [0..<min (gridRows h tileSize overlap * gridCols w tileSize overlap) (nat (max 1 m))]"
  using assms rowLoop_inv[of 0 tileSize overlap 0 "\<lparr>st_tiles = [], st_index = 0\<rparr>" w h pg m]
  by (simp add: tileImagePng_def)


lemma add_min_diff_le: "a < w \<Longrightarrow> a + min k (w - a) \<le> (w::nat)"
  by arith

lemma stepOf_1024_96: "stepOf 1024 96 = 928" by (simp add: stepOf_def)

text \<open>
  Claim C5. For a page bitmap of positive width \<open>w\<close> and height \<open>h\<close>, tiling with
  window 1024 and overlap 96 yields the windows in row-major order: tile \<open>i\<close> has its
  origin at \<open>(928 * (i mod cols), 928 * (i div cols))\<close>, so origins step by 928 pixels
  in each dimension; its width and height are the window size clamped at the bitmap
  boundary, positive and at most 1024; and it lies entirely within the bitmap. All
  \<open>rows * cols\<close> windows are produced unless the tile budget \<open>m\<close> stops the loops
  earlier.
\<close>

theorem tileImagePng_tiles_within_bitmap:
  assumes "0 < w" and "0 < h"
  shows "let ts = tileImagePng \<lparr>meta_width = Some w, meta_height = Some h\<rparr> pg 1024 96 m;
             cols = (w + 927) div 928; rows = (h + 927) div 928
         in length ts = min (rows * cols) (nat (max 1 m)) \<and>
            (\<forall>i < length ts.
               tileIndexInPage (ts ! i) = i \<and> pageIndex (ts ! i) = pg \<and>
               ext_left (buf (ts ! i)) = 928 * (i mod cols) \<and>
               ext_top (buf (ts ! i)) = 928 * (i div cols) \<and>
               ext_width (buf (ts ! i)) = min 1024 (w - ext_left (buf (ts ! i))) \<and>
               ext_height (buf (ts ! i)) = min 1024 (h - ext_top (buf (ts ! i))) \<and>
               0 < ext_width (buf (ts ! i)) \<and> ext_width (buf (ts ! i)) \<le> 1024 \<and>
               0 < ext_height (buf (ts ! i)) \<and> ext_height (buf (ts ! i)) \<le> 1024 \<and>
               ext_left (buf (ts ! i)) + ext_width (buf (ts ! i)) \<le> w \<and>
               ext_top (buf (ts ! i)) + ext_height (buf (ts ! i)) \<le> h)"
proof -
  let ?cols = "(w + 927) div 928" and ?rows = "(h + 927) div 928"
  let ?n = "min (?rows * ?cols) (nat (max 1 m))"
  have C: "gridCols w 1024 96 = ?cols" and R: "gridRows h 1024 96 = ?rows"
    by (simp_all add: gridCols_def gridRows_def stepOf_1024_96)
  have ts: "tileImagePng \<lparr>meta_width = Some w, meta_height = Some h\<rparr> pg 1024 96 m
            = map (windowAt w h 1024 96 pg) [0..<?n]"
    using tileImagePng_grid[OF assms, of pg 1024 96 m] by (simp only: C R)
  have cpos: "0 < ?cols" using assms(1) by simp
  have win: "tileIndexInPage (windowAt w h 1024 96 pg i) = i \<and> pageIndex (windowAt w h 1024 96 pg i) = pg \<and>
        ext_left (buf (windowAt w h 1024 96 pg i)) = 928 * (i mod ?cols) \<and>
        ext_top (buf (windowAt w h 1024 96 pg i)) = 928 * (i div ?cols) \<and>
        ext_width (buf (windowAt w h 1024 96 pg i)) = min 1024 (w - 928 * (i mod ?cols)) \<and>
        ext_height (buf (windowAt w h 1024 96 pg i)) = min 1024 (h - 928 * (i div ?cols))" for i
    by (simp add: windowAt_def Let_def C stepOf_1024_96)
  have inside: "928 * (i mod ?cols) < w \<and> 928 * (i div ?cols) < h" if "i < ?n" for i
  proof -
    have "i mod ?cols < ?cols" using cpos by simp
    then have a: "928 * (i mod ?cols) < w"
      using ceil_div_less[of 928 "i mod ?cols" w] by simp
    have "i < ?rows * ?cols" using that by simp
    then have "i div ?cols < ?rows" by (simp add: less_mult_imp_div_less)
    then have "928 * (i div ?cols) < h"
      using ceil_div_less[of 928 "i div ?cols" h] by simp
    with a show ?thesis by simp
  qed
  have each: "tileIndexInPage t = i \<and> pageIndex t = pg \<and>
               ext_left (buf t) = 928 * (i mod ?cols) \<and>
               ext_top (buf t) = 928 * (i div ?cols) \<and>
               ext_width (buf t) = min 1024 (w - ext_left (buf t)) \<and>
               ext_height (buf t) = min 1024 (h - ext_top (buf t)) \<and>
               0 < ext_width (buf t) \<and> ext_width (buf t) \<le> 1024 \<and>
               0 < ext_height (buf t) \<and> ext_height (buf t) \<le> 1024 \<and>
               ext_left (buf t) + ext_width (buf t) \<le> w \<and>
               ext_top (buf t) + ext_height (buf t) \<le> h"
    if i: "i < ?n" and t: "t = map (windowAt w h 1024 96 pg) [0..<?n] ! i" for i t
  proof -
    define a where "a = 928 * (i mod ?cols)"
    define b where "b = 928 * (i div ?cols)"
    have tw: "t = windowAt w h 1024 96 pg i" using i t by simp
    have f: "tileIndexInPage t = i" "pageIndex t = pg" "ext_left (buf t) = a" "ext_top (buf t) = b"
      "ext_width (buf t) = min 1024 (w - a)" "ext_height (buf t) = min 1024 (h - b)"
      using win[of i] unfolding tw a_def b_def by blast+
    have ab: "a < w" "b < h" using inside[OF i] unfolding a_def b_def by blast+
    have g: "0 < min 1024 (w - a)" "min 1024 (w - a) \<le> 1024" "a + min 1024 (w - a) \<le> w"
      "0 < min 1024 (h - b)" "min 1024 (h - b) \<le> 1024" "b + min 1024 (h - b) \<le> h"
      using ab by arith+
    show ?thesis unfolding f using g unfolding a_def b_def by blast
  qed
  have len: "length (map (windowAt w h 1024 96 pg) [0..<?n]) = ?n" by simp
  show ?thesis
    unfolding Let_def ts len
  proof (rule conjI)
    show "?n = ?n" by (rule refl)
  next
    show "\<forall>i<?n. tileIndexInPage (map (windowAt w h 1024 96 pg) [0..<?n] ! i) = i \<and>
       pageIndex (map (windowAt w h 1024 96 pg) [0..<?n] ! i) = pg \<and>
       ext_left (buf (map (windowAt w h 1024 96 pg) [0..<?n] ! i)) = 928 * (i mod ?cols) \<and>
       ext_top (buf (map (windowAt w h 1024 96 pg) [0..<?n] ! i)) = 928 * (i div ?cols) \<and>
       ext_width (buf (map (windowAt w h 1024 96 pg) [0..<?n] ! i))
         = min 1024 (w - ext_left (buf (map (windowAt w h 1024 96 pg) [0..<?n] ! i))) \<and>
       ext_height (buf (map (windowAt w h 1024 96 pg) [0..<?n] ! i))
         = min 1024 (h - ext_top (buf (map (windowAt w h 1024 96 pg) [0..<?n] ! i))) \<and>
       0 < ext_width (buf (map (windowAt w h 1024 96 pg) [0..<?n] ! i)) \<and>
       ext_width (buf (map (windowAt w h 1024 96 pg) [0..<?n] ! i)) \<le> 1024 \<and>
       0 < ext_height (buf (map (windowAt w h 1024 96 pg) [0..<?n] ! i)) \<and>
       ext_height (buf (map (windowAt w h 1024 96 pg) [0..<?n] ! i)) \<le> 1024 \<and>
       ext_left (buf (map (windowAt w h 1024 96 pg) [0..<?n] ! i))
         + ext_width (buf (map (windowAt w h 1024 96 pg) [0..<?n] ! i)) \<le> w \<and>
       ext_top (buf (map (windowAt w h 1024 96 pg) [0..<?n] ! i))
         + ext_height (buf (map (windowAt w h 1024 96 pg) [0..<?n] ! i)) \<le> h"
    proof (intro allI impI)
      fix i assume "i < ?n"
      from each[OF this refl] show "tileIndexInPage (map (windowAt w h 1024 96 pg) [0..<?n] ! i) = i \<and>
       pageIndex (map (windowAt w h 1024 96 pg) [0..<?n] ! i) = pg \<and>
       ext_left (buf (map (windowAt w h 1024 96 pg) [0..<?n] ! i)) = 928 * (i mod ?cols) \<and>
       ext_top (buf (map (windowAt w h 1024 96 pg) [0..<?n] ! i)) = 928 * (i div ?cols) \<and>
       ext_width (buf (map (windowAt w h 1024 96 pg) [0..<?n] ! i))
         = min 1024 (w - ext_left (buf (map (windowAt w h 1024 96 pg) [0..<?n] ! i))) \<and>
       ext_height (buf (map (windowAt w h 1024 96 pg) [0..<?n] ! i))
         = min 1024 (h - ext_top (buf (map (windowAt w h 1024 96 pg) [0..<?n] ! i))) \<and>
       0 < ext_width (buf (map (windowAt w h 1024 96 pg) [0..<?n] ! i)) \<and>
       ext_width (buf (map (windowAt w h 1024 96 pg) [0..<?n] ! i)) \<le> 1024 \<and>
       0 < ext_height (buf (map (windowAt w h 1024 96 pg) [0..<?n] ! i)) \<and>
       ext_height (buf (map (windowAt w h 1024 96 pg) [0..<?n] ! i)) \<le> 1024 \<and>
       ext_left (buf (map (windowAt w h 1024 96 pg) [0..<?n] ! i))
         + ext_width (buf (map (windowAt w h 1024 96 pg) [0..<?n] ! i)) \<le> w \<and>
       ext_top (buf (map (windowAt w h 1024 96 pg) [0..<?n] ! i))
         + ext_height (buf (map (windowAt w h 1024 96 pg) [0..<?n] ! i)) \<le> h" .
    qed
  qed
qed

text \<open>The 2000 x 1500 bitmap of the specification: six tiles, the last of each row and
  column clipped.\<close>

lemma tileImagePng_2000x1500:
  "map buf (tileImagePng \<lparr>meta_width = Some 2000, meta_height = Some 1500\<rparr> 0 1024 96 200) =
     [\<lparr>ext_left = 0, ext_top = 0, ext_width = 1024, ext_height = 1024\<rparr>,
      \<lparr>ext_left = 928, ext_top = 0, ext_width = 1024, ext_height = 1024\<rparr>,
      \<lparr>ext_left = 1856, ext_top = 0, ext_width = 144, ext_height = 1024\<rparr>,
      \<lparr>ext_left = 0, ext_top = 928, ext_width = 1024, ext_height = 572\<rparr>,
      \<lparr>ext_left = 928, ext_top = 928, ext_width = 1024, ext_height = 572\<rparr>,
      \<lparr>ext_left = 1856, ext_top = 928, ext_width = 144, ext_height = 572\<rparr>]"
  by code_simp

theorem tileImagePng_tiles_within_bitmap_witness:
  "(0::nat) < 2000 \<and> (0::nat) < 1500 \<and>
   length (tileImagePng \<lparr>meta_width = Some 2000, meta_height = Some 1500\<rparr> 0 1024 96 200) = 6 \<and>
   ext_left (buf (tileImagePng \<lparr>meta_width = Some 2000, meta_height = Some 1500\<rparr> 0 1024 96 200 ! 5)) = 1856 \<and>
   ext_width (buf (tileImagePng \<lparr>meta_width = Some 2000, meta_height = Some 1500\<rparr> 0 1024 96 200 ! 5)) = 144 \<and>
   ext_top (buf (tileImagePng \<lparr>meta_width = Some 2000, meta_height = Some 1500\<rparr> 0 1024 96 200 ! 5)) = 928 \<and>
   ext_height (buf (tileImagePng \<lparr>meta_width = Some 2000, meta_height = Some 1500\<rparr> 0 1024 96 200 ! 5)) = 572"
proof -
  have w: "(0::nat) < 2000" and h: "(0::nat) < 1500" by simp_all
  note t = tileImagePng_tiles_within_bitmap[OF w h, of 0 200, unfolded Let_def]
  from t have len: "length (tileImagePng \<lparr>meta_width = Some 2000, meta_height = Some 1500\<rparr> 0 1024 96 200) = 6"
    by simp
  from t len have "5 < length (tileImagePng \<lparr>meta_width = Some 2000, meta_height = Some 1500\<rparr> 0 1024 96 200)"
    by simp
  with t have
   "ext_left (buf (tileImagePng \<lparr>meta_width = Some 2000, meta_height = Some 1500\<rparr> 0 1024 96 200 ! 5)) = 928 * (5 mod ((2000 + 927) div 928))"
   "ext_top (buf (tileImagePng \<lparr>meta_width = Some 2000, meta_height = Some 1500\<rparr> 0 1024 96 200 ! 5)) = 928 * (5 div ((2000 + 927) div 928))"
   "ext_width (buf (tileImagePng \<lparr>meta_width = Some 2000, meta_height = Some 1500\<rparr> 0 1024 96 200 ! 5))
      = min 1024 (2000 - ext_left (buf (tileImagePng \<lparr>meta_width = Some 2000, meta_height = Some 1500\<rparr> 0 1024 96 200 ! 5)))"
   "ext_height (buf (tileImagePng \<lparr>meta_width = Some 2000, meta_height = Some 1500\<rparr> 0 1024 96 200 ! 5))
      = min 1024 (1500 - ext_top (buf (tileImagePng \<lparr>meta_width = Some 2000, meta_height = Some 1500\<rparr> 0 1024 96 200 ! 5)))"
    by blast+
  then show ?thesis using len by simp
qed

subsection \<open>The reference platform evaluated\<close>

lemma natToString_digit: "n < 10 \<Longrightarrow> natToString n = [48 + n]"
  by (simp add: natToString.simps)








subsection \<open>Tile-grid compositing\<close>











subsection \<open>Allowlist enforcement before asset fetches\<close>





















subsection \<open>Normalizing raw items\<close>

lemmas item_eval = normalizeFlyerItem_def trim_def isSpace_def sonota_def trimmedOrUndefined_def ascii_def
  firstDigitRun_def isDigit_def digitsValue_def NumberOfDigits_def roundToDouble_def roundNat_def





lemma price_1280:
  "toNumberPrice (Some (JStr (ascii ''1,280'' @ [20870] @ ascii ''('' @ [31246, 36796] @ ascii '')''))) = Fin 1280"
  by (simp add: item_eval)







subsection \<open>Shufoo tile URLs\<close>

text \<open>The matcher accepts exactly the basenames of the form
  \<open><digits>_<digits>_<digits>.<ext>\<close> and captures the three runs.\<close>

lemma takeWhile_run:
  "list_all P xs \<Longrightarrow> \<not> P y \<Longrightarrow> takeWhile P (xs @ y # ys) = xs"
  by (induction xs) auto

lemma not_isDigit_sep: "\<not> isDigit 95" "\<not> isDigit 46"
  by (simp_all add: isDigit_def)

lemma matchPageSizeIndex_intro:
  assumes "b = m1 @ [95] @ m2 @ [95] @ m3 @ [46] @ ext"
    and "m1 \<noteq> []" "list_all isDigit m1" "m2 \<noteq> []" "list_all isDigit m2"
    and "m3 \<noteq> []" "list_all isDigit m3" "isTileExt ext"
  shows "matchPageSizeIndex b = Some (m1, m2, m3)"
  using assms
  by (simp add: matchPageSizeIndex_def Let_def takeWhile_run not_isDigit_sep)

lemma take1_eq: "take 1 xs = [c] \<Longrightarrow> xs = c # drop 1 xs"
  by (cases xs) auto

lemma matchPageSizeIndex_elim:
  assumes "matchPageSizeIndex b = Some (m1, m2, m3)"
  shows "\<exists>ext. b = m1 @ [95] @ m2 @ [95] @ m3 @ [46] @ ext
           \<and> m1 \<noteq> [] \<and> list_all isDigit m1 \<and> m2 \<noteq> [] \<and> list_all isDigit m2
           \<and> m3 \<noteq> [] \<and> list_all isDigit m3 \<and> isTileExt ext"
proof -
  define r1 where "r1 = drop (length m1) b"
  define r2 where "r2 = drop (length m2) (drop 1 r1)"
  define r3 where "r3 = drop (length m3) (drop 1 r2)"
  from assms have m: "m1 = takeWhile isDigit b" "m2 = takeWhile isDigit (drop 1 r1)"
      "m3 = takeWhile isDigit (drop 1 r2)"
    and c: "m1 \<noteq> []" "take 1 r1 = [95]" "m2 \<noteq> []" "take 1 r2 = [95]" "m3 \<noteq> []"
      "take 1 r3 = [46]" "isTileExt (drop 1 r3)"
    unfolding matchPageSizeIndex_def Let_def r1_def r2_def r3_def
    by (auto simp only: option.inject prod.inject option.distinct split: if_splits)
  have d: "list_all isDigit m1" "list_all isDigit m2" "list_all isDigit m3"
    unfolding m list_all_iff by (auto dest: set_takeWhileD)
  have split_run: "xs = takeWhile isDigit xs @ drop (length (takeWhile isDigit xs)) xs" for xs
    by (simp only: dropWhile_eq_drop [symmetric] takeWhile_dropWhile_id)
  have "b = m1 @ r1"
    unfolding r1_def m(1) by (rule split_run)
  also have "r1 = 95 # drop 1 r1"
    using c(2) by (rule take1_eq)
  also have "drop 1 r1 = m2 @ r2"
    unfolding r2_def m(2) by (rule split_run)
  also have "r2 = 95 # drop 1 r2"
    using c(4) by (rule take1_eq)
  also have "drop 1 r2 = m3 @ r3"
    unfolding r3_def m(3) by (rule split_run)
  also have "r3 = 46 # drop 1 r3"
    using c(6) by (rule take1_eq)
  finally have "b = m1 @ [95] @ m2 @ [95] @ m3 @ [46] @ drop 1 r3"
    by simp
  with c d show ?thesis
    by blast
qed

lemma matchPageSizeIndex_iff:
  "matchPageSizeIndex b = Some (m1, m2, m3) \<longleftrightarrow>
     (\<exists>ext. b = m1 @ [95] @ m2 @ [95] @ m3 @ [46] @ ext
        \<and> m1 \<noteq> [] \<and> list_all isDigit m1 \<and> m2 \<noteq> [] \<and> list_all isDigit m2
        \<and> m3 \<noteq> [] \<and> list_all isDigit m3 \<and> isTileExt ext)"
  using matchPageSizeIndex_intro matchPageSizeIndex_elim by blast

lemma matchPageSizeIndex_None:
  assumes "\<not> (\<exists>m1 m2 m3 ext. b = m1 @ [95] @ m2 @ [95] @ m3 @ [46] @ ext
        \<and> m1 \<noteq> [] \<and> list_all isDigit m1 \<and> m2 \<noteq> [] \<and> list_all isDigit m2
        \<and> m3 \<noteq> [] \<and> list_all isDigit m3 \<and> isTileExt ext)"
  shows "matchPageSizeIndex b = None"
proof (cases "matchPageSizeIndex b")
  case None
  then show ?thesis .
next
  case (Some r)
  obtain m1 m2 m3 where "r = (m1, m2, m3)"
    by (cases r) auto
  with Some have "matchPageSizeIndex b = Some (m1, m2, m3)"
    by simp
  from matchPageSizeIndex_elim [OF this] assms show ?thesis
    by blast
qed

lemma plusOne_small: "p + 1 < 2 ^ 53 \<Longrightarrow> plusOne p = p + 1"
  by (simp add: plusOne_def roundNat_def)

lemma expand_matched:
  assumes "newURL urlStr = Some u"
    and "matchPageSizeIndex (basenameOf (pathname u)) = Some (m1, m2, m3)"
  shows "expandShufooTileUrls newURL ns urlStr =
     (case (NumberOfRun m1, NumberOfRun m2, NumberOfRun m3) of
        (Some pg, Some sz, Some tileIndex) \<Rightarrow>
          Some (concat (map (\<lambda>p. map (\<lambda>i. origin u @ dirOf (pathname u) @ natLit ns p @ [95]
                                              @ natLit ns sz @ [95] @ natLit ns i @ ascii ''.jpg'')
                                       [0, 1, 2, 3])
                            [pg, plusOne pg]))
      | _ \<Rightarrow> None)"
  using assms by (simp add: expandShufooTileUrls_def Let_def split: option.splits)

text \<open>
  Claim C9 (amended). \<open>expandShufooTileUrls\<close> returns \<open>null\<close> for a string that is no
  URL and for a URL whose basename is not of the form
  \<open><page>_<size>_<tileIndex>.<ext>\<close> with three non-empty digit runs and an extension
  among jpg, jpeg, png and webp in any case. For a URL of that form whose three runs
  convert to finite numbers it returns exactly eight URLs, in this order: tile indices
  0, 1, 2, 3 for the page and then 0, 1, 2, 3 for \<open>page + 1\<close> as the platform adds (the
  exact successor below \<open>2^53\<close>), each under the origin and directory of the input
  with the size of the input and the extension \<open>.jpg\<close>, whatever the extension of the
  input. For a URL of that form with a run that converts to \<open>Infinity\<close> it returns
  \<open>null\<close>.
\<close>

theorem expandShufooTileUrls_eight:
  "(newURL urlStr = None \<longrightarrow> expandShufooTileUrls newURL ns urlStr = None) \<and>
   (\<forall>u. newURL urlStr = Some u \<longrightarrow>
      (\<forall>m1 m2 m3 ext.
          basenameOf (pathname u) = m1 @ [95] @ m2 @ [95] @ m3 @ [46] @ ext
          \<and> m1 \<noteq> [] \<and> list_all isDigit m1 \<and> m2 \<noteq> [] \<and> list_all isDigit m2
          \<and> m3 \<noteq> [] \<and> list_all isDigit m3 \<and> isTileExt ext \<longrightarrow>
          (\<forall>pg sz t. NumberOfRun m1 = Some pg \<and> NumberOfRun m2 = Some sz \<and> NumberOfRun m3 = Some t \<longrightarrow>
             expandShufooTileUrls newURL ns urlStr =
               Some (map (\<lambda>(p, i). origin u @ dirOf (pathname u) @ natLit ns p @ [95]
                                      @ natLit ns sz @ [95] @ natLit ns i @ ascii ''.jpg'')
                       [(pg, 0), (pg, 1), (pg, 2), (pg, 3),
                        (plusOne pg, 0), (plusOne pg, 1), (plusOne pg, 2), (plusOne pg, 3)])
             \<and> (pg + 1 < 2 ^ 53 \<longrightarrow> plusOne pg = pg + 1))
          \<and> (NumberOfRun m1 = None \<or> NumberOfRun m2 = None \<or> NumberOfRun m3 = None \<longrightarrow>
               expandShufooTileUrls newURL ns urlStr = None))
      \<and> (\<not> (\<exists>m1 m2 m3 ext.
                basenameOf (pathname u) = m1 @ [95] @ m2 @ [95] @ m3 @ [46] @ ext
                \<and> m1 \<noteq> [] \<and> list_all isDigit m1 \<and> m2 \<noteq> [] \<and> list_all isDigit m2
                \<and> m3 \<noteq> [] \<and> list_all isDigit m3 \<and> isTileExt ext) \<longrightarrow>
          expandShufooTileUrls newURL ns urlStr = None))"
proof (intro conjI allI impI)
  assume "newURL urlStr = None"
  then show "expandShufooTileUrls newURL ns urlStr = None"
    by (simp add: expandShufooTileUrls_def)
next
  fix u m1 m2 m3 ext pg sz t
  assume u: "newURL urlStr = Some u"
    and b: "basenameOf (pathname u) = m1 @ [95] @ m2 @ [95] @ m3 @ [46] @ ext
          \<and> m1 \<noteq> [] \<and> list_all isDigit m1 \<and> m2 \<noteq> [] \<and> list_all isDigit m2
          \<and> m3 \<noteq> [] \<and> list_all isDigit m3 \<and> isTileExt ext"
    and n: "NumberOfRun m1 = Some pg \<and> NumberOfRun m2 = Some sz \<and> NumberOfRun m3 = Some t"
  from b have "matchPageSizeIndex (basenameOf (pathname u)) = Some (m1, m2, m3)"
    by (intro matchPageSizeIndex_intro) blast+
  from expand_matched [where newURL = newURL and urlStr = urlStr and ns = ns, OF u this] n
  show "expandShufooTileUrls newURL ns urlStr =
               Some (map (\<lambda>(p, i). origin u @ dirOf (pathname u) @ natLit ns p @ [95]
                                      @ natLit ns sz @ [95] @ natLit ns i @ ascii ''.jpg'')
                       [(pg, 0), (pg, 1), (pg, 2), (pg, 3),
                        (plusOne pg, 0), (plusOne pg, 1), (plusOne pg, 2), (plusOne pg, 3)])"
    by simp
next
  fix pg :: nat
  assume "pg + 1 < 2 ^ 53"
  then show "plusOne pg = pg + 1"
    by (rule plusOne_small)
next
  fix u m1 m2 m3 ext
  assume u: "newURL urlStr = Some u"
    and b: "basenameOf (pathname u) = m1 @ [95] @ m2 @ [95] @ m3 @ [46] @ ext
          \<and> m1 \<noteq> [] \<and> list_all isDigit m1 \<and> m2 \<noteq> [] \<and> list_all isDigit m2
          \<and> m3 \<noteq> [] \<and> list_all isDigit m3 \<and> isTileExt ext"
    and n: "NumberOfRun m1 = None \<or> NumberOfRun m2 = None \<or> NumberOfRun m3 = None"
  from b have "matchPageSizeIndex (basenameOf (pathname u)) = Some (m1, m2, m3)"
    by (intro matchPageSizeIndex_intro) blast+
  from expand_matched [where newURL = newURL and urlStr = urlStr and ns = ns, OF u this] n
  show "expandShufooTileUrls newURL ns urlStr = None"
    by (auto split: option.splits)
next
  fix u
  assume u: "newURL urlStr = Some u"
    and "\<not> (\<exists>m1 m2 m3 ext.
                basenameOf (pathname u) = m1 @ [95] @ m2 @ [95] @ m3 @ [46] @ ext
                \<and> m1 \<noteq> [] \<and> list_all isDigit m1 \<and> m2 \<noteq> [] \<and> list_all isDigit m2
                \<and> m3 \<noteq> [] \<and> list_all isDigit m3 \<and> isTileExt ext)"
  then have "matchPageSizeIndex (basenameOf (pathname u)) = None"
    by (intro matchPageSizeIndex_None)
  with u show "expandShufooTileUrls newURL ns urlStr = None"
    by (simp add: expandShufooTileUrls_def Let_def)
qed

lemma natLit_priceText: "natLit priceText n = natToString n"
  by (simp add: natLit_def)

lemma natToString_800: "natToString 800 = ascii ''800''"
  by code_simp

lemma plainURL_tile_PNG:
  "plainURL (ascii ''https://ipqcache1.shufoo.net/c/3_800_2.PNG'')
   = Some \<lparr>protocol = ascii ''https:'', hostname = ascii ''ipqcache1.shufoo.net'',
            origin = ascii ''https://ipqcache1.shufoo.net'', pathname = ascii ''/c/3_800_2.PNG'',
            hrefPrefix = ascii ''https://ipqcache1.shufoo.net'', hrefSuffix = []\<rparr>"
  by code_simp

lemma plainURL_index:
  "plainURL (ascii ''https://ipqcache1.shufoo.net/c/index.html'')
   = Some \<lparr>protocol = ascii ''https:'', hostname = ascii ''ipqcache1.shufoo.net'',
            origin = ascii ''https://ipqcache1.shufoo.net'', pathname = ascii ''/c/index.html'',
            hrefPrefix = ascii ''https://ipqcache1.shufoo.net'', hrefSuffix = []\<rparr>"
  by code_simp

lemma plainURL_bare: "plainURL (ascii ''3_800_2.png'') = None"
  by code_simp

lemma basename_tile_PNG:
  "basenameOf (ascii ''/c/3_800_2.PNG'') = ascii ''3'' @ [95] @ ascii ''800'' @ [95] @ ascii ''2'' @ [46] @ ascii ''PNG''"
  "dirOf (ascii ''/c/3_800_2.PNG'') = ascii ''/c/''"
  "isTileExt (ascii ''PNG'')"
  "list_all isDigit (ascii ''3'')" "list_all isDigit (ascii ''800'')" "list_all isDigit (ascii ''2'')"
  by code_simp+

lemma index_no_tile: "matchPageSizeIndex (basenameOf (ascii ''/c/index.html'')) = None"
  by code_simp


lemma NumberOfRun_small: "digitsValue ds < 2 ^ 53 \<Longrightarrow> NumberOfRun ds = Some (digitsValue ds)"
  by (simp add: NumberOfRun_def roundNat_def)

lemma digitsValue_demo:
  "digitsValue (ascii ''3'') = 3" "digitsValue (ascii ''800'') = 800" "digitsValue (ascii ''2'') = 2"
  "digitsValue (ascii ''0'') = 0" "digitsValue (ascii ''1'') = 1"
  by (simp_all add: digitsValue_def ascii_def)

lemma NumberOfRun_demo:
  "NumberOfRun (ascii ''3'') = Some 3" "NumberOfRun (ascii ''800'') = Some 800" "NumberOfRun (ascii ''2'') = Some 2"
  "NumberOfRun (ascii ''0'') = Some 0" "NumberOfRun (ascii ''1'') = Some 1"
  by (simp_all add: NumberOfRun_small digitsValue_demo)

lemma plusOne_3: "plusOne 3 = 4"
  by (simp add: plusOne_small)


lemma demo_nonempty: "ascii ''3'' \<noteq> []" "ascii ''800'' \<noteq> []" "ascii ''2'' \<noteq> []"
  by (simp_all add: ascii_def)

lemma tile_PNG_url:
  "ascii ''https://ipqcache1.shufoo.net'' @ ascii ''/c/'' @ natToString p @ [95] @ ascii ''800'' @ [95]
     @ [48 + i] @ ascii ''.jpg''
   = ascii ''https://ipqcache1.shufoo.net/c/'' @ natToString p @ ascii ''_800_'' @ [48 + i] @ ascii ''.jpg''"
  by (simp add: ascii_def)

text \<open>
  On the reference platform the URL \<open>https://ipqcache1.shufoo.net/c/3_800_2.PNG\<close>
  expands to the eight \<open>.jpg\<close> URLs of pages 3 and 4; a URL whose basename is
  \<open>index.html\<close> and the bare string \<open>3_800_2.png\<close> give \<open>null\<close>.
\<close>

theorem expandShufooTileUrls_eight_witness:
  "expandShufooTileUrls plainURL priceText (ascii ''https://ipqcache1.shufoo.net/c/3_800_2.PNG'')
     = Some [ascii ''https://ipqcache1.shufoo.net/c/3_800_0.jpg'',
             ascii ''https://ipqcache1.shufoo.net/c/3_800_1.jpg'',
             ascii ''https://ipqcache1.shufoo.net/c/3_800_2.jpg'',
             ascii ''https://ipqcache1.shufoo.net/c/3_800_3.jpg'',
             ascii ''https://ipqcache1.shufoo.net/c/4_800_0.jpg'',
             ascii ''https://ipqcache1.shufoo.net/c/4_800_1.jpg'',
             ascii ''https://ipqcache1.shufoo.net/c/4_800_2.jpg'',
             ascii ''https://ipqcache1.shufoo.net/c/4_800_3.jpg'']
   \<and> expandShufooTileUrls plainURL priceText (ascii ''https://ipqcache1.shufoo.net/c/index.html'') = None
   \<and> expandShufooTileUrls plainURL priceText (ascii ''3_800_2.png'') = None"
proof (intro conjI)
  let ?u = "\<lparr>protocol = ascii ''https:'', hostname = ascii ''ipqcache1.shufoo.net'',
            origin = ascii ''https://ipqcache1.shufoo.net'', pathname = ascii ''/c/3_800_2.PNG'',
            hrefPrefix = ascii ''https://ipqcache1.shufoo.net'', hrefSuffix = []\<rparr>"
  note t = expandShufooTileUrls_eight [of plainURL "ascii ''https://ipqcache1.shufoo.net/c/3_800_2.PNG''" priceText]
  note a = t [THEN conjunct2, rule_format, OF plainURL_tile_PNG, THEN conjunct1, rule_format,
      of "ascii ''3''" "ascii ''800''" "ascii ''2''" "ascii ''PNG''"]
  have pre: "basenameOf (pathname ?u) = ascii ''3'' @ [95] @ ascii ''800'' @ [95] @ ascii ''2'' @ [46] @ ascii ''PNG''
          \<and> ascii ''3'' \<noteq> [] \<and> list_all isDigit (ascii ''3'') \<and> ascii ''800'' \<noteq> [] \<and> list_all isDigit (ascii ''800'')
          \<and> ascii ''2'' \<noteq> [] \<and> list_all isDigit (ascii ''2'') \<and> isTileExt (ascii ''PNG'')"
    by (simp only: basename_tile_PNG demo_nonempty URL.simps simp_thms not_False_eq_True)
  have num: "NumberOfRun (ascii ''3'') = Some 3 \<and> NumberOfRun (ascii ''800'') = Some 800 \<and> NumberOfRun (ascii ''2'') = Some 2"
    by (simp only: NumberOfRun_demo simp_thms)
  note b = a [OF pre, THEN conjunct1, rule_format, of 3 800 2, OF num, THEN conjunct1]
  show "expandShufooTileUrls plainURL priceText (ascii ''https://ipqcache1.shufoo.net/c/3_800_2.PNG'')
     = Some [ascii ''https://ipqcache1.shufoo.net/c/3_800_0.jpg'',
             ascii ''https://ipqcache1.shufoo.net/c/3_800_1.jpg'',
             ascii ''https://ipqcache1.shufoo.net/c/3_800_2.jpg'',
             ascii ''https://ipqcache1.shufoo.net/c/3_800_3.jpg'',
             ascii ''https://ipqcache1.shufoo.net/c/4_800_0.jpg'',
             ascii ''https://ipqcache1.shufoo.net/c/4_800_1.jpg'',
             ascii ''https://ipqcache1.shufoo.net/c/4_800_2.jpg'',
             ascii ''https://ipqcache1.shufoo.net/c/4_800_3.jpg'']"
    unfolding b
    by (simp add: natLit_priceText natToString_digit natToString_800 plusOne_3 ascii_def dirOf_def basenameOf_def)
next
  note t = expandShufooTileUrls_eight [of plainURL "ascii ''https://ipqcache1.shufoo.net/c/index.html''" priceText]
  have "\<not> (\<exists>m1 m2 m3 ext.
          basenameOf (ascii ''/c/index.html'') = m1 @ [95] @ m2 @ [95] @ m3 @ [46] @ ext
          \<and> m1 \<noteq> [] \<and> list_all isDigit m1 \<and> m2 \<noteq> [] \<and> list_all isDigit m2
          \<and> m3 \<noteq> [] \<and> list_all isDigit m3 \<and> isTileExt ext)"
  proof
    assume "\<exists>m1 m2 m3 ext.
          basenameOf (ascii ''/c/index.html'') = m1 @ [95] @ m2 @ [95] @ m3 @ [46] @ ext
          \<and> m1 \<noteq> [] \<and> list_all isDigit m1 \<and> m2 \<noteq> [] \<and> list_all isDigit m2
          \<and> m3 \<noteq> [] \<and> list_all isDigit m3 \<and> isTileExt ext"
    then obtain m1 m2 m3 where "matchPageSizeIndex (basenameOf (ascii ''/c/index.html'')) = Some (m1, m2, m3)"
      using matchPageSizeIndex_intro by blast
    with index_no_tile show False
      by simp
  qed
  then have "\<not> (\<exists>m1 m2 m3 ext.
          basenameOf (pathname \<lparr>protocol = ascii ''https:'', hostname = ascii ''ipqcache1.shufoo.net'',
            origin = ascii ''https://ipqcache1.shufoo.net'', pathname = ascii ''/c/index.html'',
            hrefPrefix = ascii ''https://ipqcache1.shufoo.net'', hrefSuffix = []\<rparr>) = m1 @ [95] @ m2 @ [95] @ m3 @ [46] @ ext
          \<and> m1 \<noteq> [] \<and> list_all isDigit m1 \<and> m2 \<noteq> [] \<and> list_all isDigit m2
          \<and> m3 \<noteq> [] \<and> list_all isDigit m3 \<and> isTileExt ext)"
    by (simp only: URL.simps simp_thms)
  from t [THEN conjunct2, rule_format, OF plainURL_index, THEN conjunct2, rule_format, OF this]
  show "expandShufooTileUrls plainURL priceText (ascii ''https://ipqcache1.shufoo.net/c/index.html'') = None" .
next
  from expandShufooTileUrls_eight [of plainURL "ascii ''3_800_2.png''" priceText, THEN conjunct1, rule_format, OF plainURL_bare]
  show "expandShufooTileUrls plainURL priceText (ascii ''3_800_2.png'') = None" .
qed

lemma foldl_digits_nines:
  "foldl (\<lambda>a c. 10 * a + (c - 48)) a (replicate n (57::nat)) = (a + 1) * 10 ^ n - (1::nat)"
proof (induction n arbitrary: a)
  case 0
  show ?case by simp
next
  case (Suc n)
  have "foldl (\<lambda>a c. 10 * a + (c - 48)) a (replicate (Suc n) (57::nat))
      = foldl (\<lambda>a c. 10 * a + (c - 48)) (10 * a + 9) (replicate n (57::nat))"
    by simp
  also have "\<dots> = (10 * a + 9 + 1) * 10 ^ n - 1"
    by (rule Suc.IH)
  also have "(10 * a + 9 + 1) * 10 ^ n = (a + 1) * 10 ^ Suc n"
    by (simp add: algebra_simps)
  finally show ?case .
qed

lemma digitsValue_nines: "digitsValue (replicate n 57) = 10 ^ n - 1"
  by (simp add: digitsValue_def foldl_digits_nines)

lemma NumberOfRun_nines: "NumberOfRun (replicate 309 57) = None"
  by (simp add: NumberOfRun_def digitsValue_nines roundNat_def)

lemma match_nines:
  "matchPageSizeIndex (replicate 309 57 @ ascii ''_800_0.jpg'')
     = Some (replicate 309 57, ascii ''800'', ascii ''0'')"
proof (rule matchPageSizeIndex_intro)
  show "replicate 309 57 @ ascii ''_800_0.jpg''
      = replicate 309 57 @ [95] @ ascii ''800'' @ [95] @ ascii ''0'' @ [46] @ ascii ''jpg''"
    by (simp add: ascii_def)
  show "list_all isDigit (replicate 309 57)"
    by (simp add: list_all_iff isDigit_def)
  show "isTileExt (ascii ''jpg'')"
    by code_simp
qed (simp_all add: ascii_def isDigit_def)


lemma plainURL_nines:
  "plainURL (ascii ''https://ipqcache1.shufoo.net/c/'' @ replicate 309 57 @ ascii ''_800_0.jpg'')
   = Some \<lparr>protocol = ascii ''https:'', hostname = ascii ''ipqcache1.shufoo.net'',
            origin = ascii ''https://ipqcache1.shufoo.net'',
            pathname = ascii ''/c/'' @ replicate 309 57 @ ascii ''_800_0.jpg'',
            hrefPrefix = ascii ''https://ipqcache1.shufoo.net'', hrefSuffix = []\<rparr>"
  by code_simp


lemma basenameOf_append: "47 \<notin> set b \<Longrightarrow> basenameOf (d @ 47 # b) = b"
proof -
  assume "47 \<notin> set b"
  then have "list_all (\<lambda>c. c \<noteq> 47) (rev b)"
    by (auto simp: list_all_iff)
  then have "takeWhile (\<lambda>c. c \<noteq> 47) (rev b @ 47 # rev d) = rev b"
    by (rule takeWhile_run) simp
  then show ?thesis
    by (simp add: basenameOf_def)
qed

lemma basename_nines:
  "basenameOf (ascii ''/c/'' @ replicate 309 57 @ ascii ''_800_0.jpg'') = replicate 309 57 @ ascii ''_800_0.jpg''"
proof -
  have "47 \<notin> set (replicate 309 57 @ ascii ''_800_0.jpg'')"
    by (simp add: ascii_def)
  from basenameOf_append [OF this, of "ascii ''/c''"] show ?thesis
    by (simp add: ascii_def)
qed

text \<open>
  Claim C9 as stated fails: a basename can match the pattern and still not be expanded.
  With a page of 309 nines the basename matches, \<open>Number\<close> of the page is \<open>Infinity\<close>,
  and the guard on \<open>Number.isFinite\<close> returns \<open>null\<close>.
\<close>

theorem expandShufooTileUrls_infinite_counterexample:
  "plainURL (ascii ''https://ipqcache1.shufoo.net/c/'' @ replicate 309 57 @ ascii ''_800_0.jpg'')
     = Some \<lparr>protocol = ascii ''https:'', hostname = ascii ''ipqcache1.shufoo.net'',
              origin = ascii ''https://ipqcache1.shufoo.net'',
              pathname = ascii ''/c/'' @ replicate 309 57 @ ascii ''_800_0.jpg'',
              hrefPrefix = ascii ''https://ipqcache1.shufoo.net'', hrefSuffix = []\<rparr>
   \<and> basenameOf (ascii ''/c/'' @ replicate 309 57 @ ascii ''_800_0.jpg'')
       = replicate 309 57 @ [95] @ ascii ''800'' @ [95] @ ascii ''0'' @ [46] @ ascii ''jpg''
   \<and> list_all isDigit (replicate 309 57)
   \<and> expandShufooTileUrls plainURL priceText
        (ascii ''https://ipqcache1.shufoo.net/c/'' @ replicate 309 57 @ ascii ''_800_0.jpg'') = None"
proof (intro conjI)
  show "plainURL (ascii ''https://ipqcache1.shufoo.net/c/'' @ replicate 309 57 @ ascii ''_800_0.jpg'')
     = Some \<lparr>protocol = ascii ''https:'', hostname = ascii ''ipqcache1.shufoo.net'',
              origin = ascii ''https://ipqcache1.shufoo.net'',
              pathname = ascii ''/c/'' @ replicate 309 57 @ ascii ''_800_0.jpg'',
              hrefPrefix = ascii ''https://ipqcache1.shufoo.net'', hrefSuffix = []\<rparr>"
    by (rule plainURL_nines)
  show "basenameOf (ascii ''/c/'' @ replicate 309 57 @ ascii ''_800_0.jpg'')
       = replicate 309 57 @ [95] @ ascii ''800'' @ [95] @ ascii ''0'' @ [46] @ ascii ''jpg''"
    unfolding basename_nines by (simp add: ascii_def)
  show "list_all isDigit (replicate 309 57)"
    by (simp add: list_all_iff isDigit_def)
  have "matchPageSizeIndex (basenameOf (pathname \<lparr>protocol = ascii ''https:'', hostname = ascii ''ipqcache1.shufoo.net'',
              origin = ascii ''https://ipqcache1.shufoo.net'',
              pathname = ascii ''/c/'' @ replicate 309 57 @ ascii ''_800_0.jpg'',
              hrefPrefix = ascii ''https://ipqcache1.shufoo.net'', hrefSuffix = []\<rparr>))
     = Some (replicate 309 57, ascii ''800'', ascii ''0'')"
    by (simp only: URL.simps basename_nines match_nines)
  from expand_matched [where newURL = plainURL and ns = priceText, OF plainURL_nines this]
  show "expandShufooTileUrls plainURL priceText
        (ascii ''https://ipqcache1.shufoo.net/c/'' @ replicate 309 57 @ ascii ''_800_0.jpg'') = None"
    by (simp only: NumberOfRun_nines prod.case option.case)
qed

subsection \<open>De-duplication\<close>















lemmas key_eval = makeDedupKey_def norm_def isSpace_def isKeyPunct_def asciiLower_def ascii_def
  natToString.simps




subsection \<open>Batch extraction\<close>



























end
